theory Spec2Isabelle
  imports Complex_Main
begin

section \<open>Python values\<close>

text \<open>
  The services exchange JSON-like Python values: the result of \<^verbatim>\<open>json.loads\<close>, the
  dictionaries built by the controller, the contents of a \<^verbatim>\<open>JSONField\<close>. A \<^verbatim>\<open>dict\<close> is
  an association list in insertion order; a lookup reads the first binding of a key.
  A float is represented by the rational number it stands for, the three non-finite floats
  that \<^verbatim>\<open>json.loads\<close> accepts are separate. Strings are sequences of ASCII characters.
\<close>

datatype nonfinite = NaN | PosInf | NegInf

datatype pyval =
    PNone
  | PBool bool
  | PInt int
  | PFloat rat
  | PNonFinite nonfinite
  | PStr string
  | PList "pyval list"
  | PDict "(string \<times> pyval) list"

type_synonym pydict = "(string \<times> pyval) list"

text \<open>The exceptions that the modelled code can meet; all are subclasses of \<^verbatim>\<open>Exception\<close>.\<close>

datatype exn =
    JSONDecodeError
  | AttributeError
  | TypeError
  | IndexError
  | KeyError
  | DatabaseError
  | RuntimeError string

text \<open>\<^verbatim>\<open>str(e)\<close> of an exception: the message of a runtime error, the class name otherwise.\<close>

fun exn_str :: "exn \<Rightarrow> string" where
  "exn_str JSONDecodeError = ''JSONDecodeError''"
| "exn_str AttributeError = ''AttributeError''"
| "exn_str TypeError = ''TypeError''"
| "exn_str IndexError = ''IndexError''"
| "exn_str KeyError = ''KeyError''"
| "exn_str DatabaseError = ''DatabaseError''"
| "exn_str (RuntimeError m) = m"

text \<open>\<^verbatim>\<open>d.get(k)\<close>, \<^verbatim>\<open>d.get(k, default)\<close>, \<^verbatim>\<open>k in d\<close> and \<^verbatim>\<open>d[k] = v\<close>.\<close>

definition py_get_default :: "pydict \<Rightarrow> string \<Rightarrow> pyval \<Rightarrow> pyval" where
  "py_get_default d k dflt = (case map_of d k of None \<Rightarrow> dflt | Some v \<Rightarrow> v)"

definition py_get :: "pydict \<Rightarrow> string \<Rightarrow> pyval" where
  "py_get d k = py_get_default d k PNone"

definition py_in :: "string \<Rightarrow> pydict \<Rightarrow> bool" where
  "py_in k d = (map_of d k \<noteq> None)"

fun dict_set :: "('k \<times> 'v) list \<Rightarrow> 'k \<Rightarrow> 'v \<Rightarrow> ('k \<times> 'v) list" where
  "dict_set [] k v = [(k, v)]"
| "dict_set ((k', v') # d) k v = (if k' = k then (k, v) # d else (k', v') # dict_set d k v)"

text \<open>Truth value testing (\<^verbatim>\<open>if x\<close>, \<^verbatim>\<open>not x\<close>, \<^verbatim>\<open>x and y\<close>).\<close>

fun truthy :: "pyval \<Rightarrow> bool" where
  "truthy PNone = False"
| "truthy (PBool b) = b"
| "truthy (PInt i) = (i \<noteq> 0)"
| "truthy (PFloat r) = (r \<noteq> 0)"
| "truthy (PNonFinite n) = True"
| "truthy (PStr s) = (s \<noteq> [])"
| "truthy (PList xs) = (xs \<noteq> [])"
| "truthy (PDict d) = (d \<noteq> [])"

text \<open>
  Numbers: \<^verbatim>\<open>bool\<close> is a subclass of \<^verbatim>\<open>int\<close>, and Python compares \<^verbatim>\<open>int\<close> and
  \<^verbatim>\<open>float\<close> by value. \<open>as_number\<close> gives the numeric value of a number and \<open>None\<close>
  for every other value.
\<close>

fun as_number :: "pyval \<Rightarrow> (nonfinite + rat) option" where
  "as_number (PBool b) = Some (Inr (if b then 1 else 0))"
| "as_number (PInt i) = Some (Inr (of_int i))"
| "as_number (PFloat r) = Some (Inr r)"
| "as_number (PNonFinite n) = Some (Inl n)"
| "as_number PNone = None"
| "as_number (PStr s) = None"
| "as_number (PList xs) = None"
| "as_number (PDict d) = None"

fun number_gt :: "nonfinite + rat \<Rightarrow> nonfinite + rat \<Rightarrow> bool" where
  "number_gt (Inl NaN) y = False"
| "number_gt x (Inl NaN) = False"
| "number_gt (Inl PosInf) y = (y \<noteq> Inl PosInf)"
| "number_gt (Inl NegInf) y = False"
| "number_gt (Inr a) (Inl PosInf) = False"
| "number_gt (Inr a) (Inl NegInf) = True"
| "number_gt (Inr a) (Inr b) = (a > b)"

fun number_eq :: "nonfinite + rat \<Rightarrow> nonfinite + rat \<Rightarrow> bool" where
  "number_eq (Inl NaN) y = False"
| "number_eq x (Inl NaN) = False"
| "number_eq x y = (x = y)"

text \<open>Strings are ordered lexicographically by code point.\<close>

fun str_gt :: "string \<Rightarrow> string \<Rightarrow> bool" where
  "str_gt [] t = False"
| "str_gt (a # s) [] = True"
| "str_gt (a # s) (b # t) =
     (if (of_char a :: nat) > of_char b then True
      else if (of_char a :: nat) < of_char b then False
      else str_gt s t)"

text \<open>
  \<^verbatim>\<open>x > y\<close> and \<^verbatim>\<open>x >= y\<close> on two numbers or two strings; every other pair of types that
  occurs in this program (a string or \<^verbatim>\<open>None\<close> against a number, dictionaries) raises
  \<^verbatim>\<open>TypeError\<close>. The ordering of two lists is not modelled and is reported as \<^verbatim>\<open>TypeError\<close>
  too; no list is ever compared by the code below.
\<close>

definition py_gt :: "pyval \<Rightarrow> pyval \<Rightarrow> exn + bool" where
  "py_gt x y =
     (case (as_number x, as_number y) of
        (Some a, Some b) \<Rightarrow> Inr (number_gt a b)
      | _ \<Rightarrow> (case (x, y) of
                 (PStr s, PStr t) \<Rightarrow> Inr (str_gt s t)
               | _ \<Rightarrow> Inl TypeError))"

definition py_ge :: "pyval \<Rightarrow> pyval \<Rightarrow> exn + bool" where
  "py_ge x y =
     (case (as_number x, as_number y) of
        (Some a, Some b) \<Rightarrow> Inr (number_gt a b \<or> number_eq a b)
      | _ \<Rightarrow> (case (x, y) of
                 (PStr s, PStr t) \<Rightarrow> Inr (str_gt s t \<or> s = t)
               | _ \<Rightarrow> Inl TypeError))"

text \<open>
  \<^verbatim>\<open>x == y\<close>: numbers by value, everything else structurally (a number nested in a list or
  dictionary is compared structurally as well, which is exact for values of one numeric type).
\<close>

definition py_eq :: "pyval \<Rightarrow> pyval \<Rightarrow> bool" where
  "py_eq x y =
     (case (as_number x, as_number y) of
        (Some a, Some b) \<Rightarrow> number_eq a b
      | _ \<Rightarrow> x = y)"


section \<open>The analysis job (\<^verbatim>\<open>backend/analysis/models.py\<close>)\<close>

text \<open>
  One row of the analysis table. The two JSON fields and the counters hold whatever Python
  value was assigned to them; the timestamps are ISO strings.
\<close>

record IterativeAnalysis =
  query :: string
  company_filter :: "string option"
  final_analysis :: pyval
  iteration_history :: pyval
  cancel_requested :: bool
  total_iterations :: pyval
  documents_analyzed :: pyval
  rag_queries_executed :: pyval
  final_completeness_score :: pyval
  created_at :: string
  completed_at :: "string option"
  status :: string
  error_message :: "string option"




text \<open>
  \<open>get_latest_iteration_analysis\<close>: the loop over the history keeps the pair
  \<open>(latest_analysis, latest_timestamp)\<close>. An element that is not a dictionary has no
  \<^verbatim>\<open>get\<close>.
\<close>

fun latest_scan :: "pyval list \<Rightarrow> pyval \<times> pyval \<Rightarrow> exn + pyval" where
  "latest_scan [] (latest_analysis, latest_timestamp) = Inr latest_analysis"
| "latest_scan (iteration # rest) (latest_analysis, latest_timestamp) =
     (case iteration of
        PDict d \<Rightarrow>
          (if py_get d ''type'' = PStr ''initial_analysis'' \<or> py_get d ''type'' = PStr ''refinement''
           then (let timestamp = py_get d ''timestamp'' in
                 if \<not> truthy timestamp then latest_scan rest (latest_analysis, latest_timestamp)
                 else if \<not> truthy latest_timestamp
                   then latest_scan rest (py_get d ''analysis'', timestamp)
                 else (case py_gt timestamp latest_timestamp of
                         Inl e \<Rightarrow> Inl e
                       | Inr True \<Rightarrow> latest_scan rest (py_get d ''analysis'', timestamp)
                       | Inr False \<Rightarrow> latest_scan rest (latest_analysis, latest_timestamp)))
           else latest_scan rest (latest_analysis, latest_timestamp))
      | _ \<Rightarrow> Inl AttributeError)"

definition get_latest_iteration_analysis :: "IterativeAnalysis \<Rightarrow> exn + pyval" where
  "get_latest_iteration_analysis self =
     (if \<not> truthy (iteration_history self) then Inr PNone
      else (case iteration_history self of
              PList its \<Rightarrow> latest_scan its (PNone, PNone)
            | PDict d \<Rightarrow> Inl AttributeError
            | PStr s \<Rightarrow> Inl AttributeError
            | _ \<Rightarrow> Inl TypeError))"


section \<open>The iterative analysis controller (\<^verbatim>\<open>backend/services/iterative_analysis_service.py\<close>)\<close>

text \<open>
  The controller talks to the outside world through its helper methods, each of which wraps
  one LLM or RAG call, catches every exception itself and returns a dictionary or a list.
  Within one run every call site is reached at most once per iteration (and per query index),
  so the outside world is a family of answers indexed by call site: the iteration number,
  and for the RAG tool also the position of the query. \<open>should_cancel\<close> is the optional
  callback, asked at the places named by \<open>cancel_point\<close>; it may raise.
  \<open>now_isoformat n\<close> is \<^verbatim>\<open>datetime.now().isoformat()\<close> at the moment the history holds \<open>n\<close>
  records.
\<close>

datatype cancel_point =
    BeforeInitial
  | BeforeEvaluation nat
  | DuringRag nat nat
  | BeforeRefinement nat
  | AfterLoop

record analysis_env =
  openai_client :: bool
  get_document_summaries :: "string option \<Rightarrow> pyval list"
  should_cancel :: "(cancel_point \<Rightarrow> exn + bool) option"
  generate_initial_analysis :: "string \<Rightarrow> pyval list \<Rightarrow> pydict"
  question_analysis_completeness :: "nat \<Rightarrow> pydict \<Rightarrow> string \<Rightarrow> pydict"
  generate_targeted_rag_queries :: "nat \<Rightarrow> pydict \<Rightarrow> pyval list \<Rightarrow> pyval list"
  execute_function :: "nat \<Rightarrow> nat \<Rightarrow> pyval \<Rightarrow> pyval"
  refine_analysis_with_rag_results :: "nat \<Rightarrow> pydict \<Rightarrow> pyval list \<Rightarrow> string \<Rightarrow> pydict"
  now_isoformat :: "nat \<Rightarrow> string"

text \<open>\<^verbatim>\<open>self.max_iterations = 10\<close>, set once by the constructor.\<close>

definition max_iterations :: nat where
  "max_iterations = 10"

text \<open>\<^verbatim>\<open>should_cancel and should_cancel()\<close>: without a callback nothing is asked.\<close>

definition cancel_check :: "analysis_env \<Rightarrow> cancel_point \<Rightarrow> exn + bool" where
  "cancel_check env p = (case should_cancel env of None \<Rightarrow> Inr False | Some f \<Rightarrow> f p)"

text \<open>The four kinds of record that the controller appends to \<^verbatim>\<open>iteration_history\<close>.\<close>

definition initial_analysis_record :: "string \<Rightarrow> pydict \<Rightarrow> pydict" where
  "initial_analysis_record ts current_analysis =
     [(''iteration'', PInt 0), (''type'', PStr ''initial_analysis''),
      (''timestamp'', PStr ts), (''analysis'', PDict current_analysis)]"

definition evaluation_record :: "nat \<Rightarrow> string \<Rightarrow> pydict \<Rightarrow> pyval \<Rightarrow> pyval \<Rightarrow> pydict" where
  "evaluation_record iteration ts evaluation completeness_score is_complete =
     [(''iteration'', PInt (int iteration)), (''type'', PStr ''evaluation''),
      (''timestamp'', PStr ts), (''evaluation'', PDict evaluation),
      (''completeness_score'', completeness_score), (''is_complete'', is_complete)]"

definition rag_queries_record :: "nat \<Rightarrow> string \<Rightarrow> pyval list \<Rightarrow> pyval list \<Rightarrow> pydict" where
  "rag_queries_record iteration ts rag_queries rag_results =
     [(''iteration'', PInt (int iteration)), (''type'', PStr ''rag_queries''),
      (''timestamp'', PStr ts), (''queries'', PList rag_queries), (''results'', PList rag_results)]"

definition refined_analysis_record :: "nat \<Rightarrow> string \<Rightarrow> pydict \<Rightarrow> pydict" where
  "refined_analysis_record iteration ts refined_analysis =
     [(''iteration'', PInt (int iteration)), (''type'', PStr ''refined_analysis''),
      (''timestamp'', PStr ts), (''analysis'', PDict refined_analysis)]"

text \<open>
  The inner loop over the generated queries: it stops at the first cancellation and keeps
  the results so far.
\<close>

fun rag_loop :: "analysis_env \<Rightarrow> nat \<Rightarrow> nat \<Rightarrow> pyval list \<Rightarrow> pyval list \<Rightarrow> exn + pyval list" where
  "rag_loop env iteration k [] rag_results = Inr rag_results"
| "rag_loop env iteration k (rag_query # rest) rag_results =
     (case cancel_check env (DuringRag iteration k) of
        Inl e \<Rightarrow> Inl e
      | Inr True \<Rightarrow> Inr rag_results
      | Inr False \<Rightarrow>
          rag_loop env iteration (Suc k) rest
            (rag_results @ [execute_function env iteration k rag_query]))"

text \<open>
  One pass through the body of the refinement loop, from the state
  \<open>(current_analysis, iteration_history)\<close>: the pass ends at the bottom of the body
  (\<open>Continue\<close>), at a \<^verbatim>\<open>break\<close> (\<open>Break\<close>) or with an exception (\<open>Raise\<close>); the state is the
  one the local variables hold at that moment.
\<close>

type_synonym loop_state = "pydict \<times> pydict list"

datatype loop_step = Continue loop_state | Break loop_state | Raise exn loop_state

text \<open>The last part of the body: the cancellation check before refinement, and the refinement.\<close>

definition refine_step ::
  "analysis_env \<Rightarrow> string \<Rightarrow> nat \<Rightarrow> pydict \<Rightarrow> pydict list \<Rightarrow> pyval list \<Rightarrow> loop_step" where
  "refine_step env q iteration current_analysis history2 rag_results =
     (case cancel_check env (BeforeRefinement iteration) of
        Inl e \<Rightarrow> Raise e (current_analysis, history2)
      | Inr True \<Rightarrow> Break (current_analysis, history2)
      | Inr False \<Rightarrow>
         (let refined_analysis =
                refine_analysis_with_rag_results env iteration current_analysis rag_results q
          in if \<not> py_in ''error'' refined_analysis
             then Continue (refined_analysis,
                    history2 @ [refined_analysis_record iteration
                                  (now_isoformat env (length history2)) refined_analysis])
             else Break (current_analysis, history2)))"

text \<open>The middle part: query generation, the RAG queries and their record.\<close>

definition retrieve_step ::
  "analysis_env \<Rightarrow> string \<Rightarrow> pyval list \<Rightarrow> nat \<Rightarrow> pydict \<Rightarrow> pydict list \<Rightarrow> pydict \<Rightarrow> loop_step" where
  "retrieve_step env q document_summaries iteration current_analysis history1 evaluation =
     (let rag_queries = generate_targeted_rag_queries env iteration evaluation document_summaries
      in if rag_queries = [] then Break (current_analysis, history1)
         else
          (case rag_loop env iteration 0 rag_queries [] of
             Inl e \<Rightarrow> Raise e (current_analysis, history1)
           | Inr rag_results \<Rightarrow>
               refine_step env q iteration current_analysis
                 (history1 @ [rag_queries_record iteration (now_isoformat env (length history1))
                                rag_queries rag_results])
                 rag_results))"

text \<open>The whole body: cancellation check, evaluation, its record, the termination test.\<close>

definition iteration_body ::
  "analysis_env \<Rightarrow> string \<Rightarrow> pyval list \<Rightarrow> nat \<Rightarrow> loop_state \<Rightarrow> loop_step" where
  "iteration_body env q document_summaries iteration st =
     (let current_analysis = fst st; history = snd st in
      case cancel_check env (BeforeEvaluation iteration) of
        Inl e \<Rightarrow> Raise e st
      | Inr True \<Rightarrow> Break st
      | Inr False \<Rightarrow>
         (let evaluation = question_analysis_completeness env iteration current_analysis q in
          if py_in ''error'' evaluation then Break st
          else
           (let is_complete = py_get_default evaluation ''is_analysis_complete'' (PBool False);
                completeness_score = py_get_default evaluation ''completeness_score'' (PInt 0);
                history1 = history @ [evaluation_record iteration (now_isoformat env (length history))
                                        evaluation completeness_score is_complete]
            in if truthy is_complete then Break (current_analysis, history1)
               else
                (case py_ge completeness_score (PInt 7) of
                   Inl e \<Rightarrow> Raise e (current_analysis, history1)
                 | Inr True \<Rightarrow> Break (current_analysis, history1)
                 | Inr False \<Rightarrow>
                     retrieve_step env q document_summaries iteration current_analysis
                       history1 evaluation))))"

text \<open>
  \<^verbatim>\<open>for iteration in range(1, self.max_iterations + 1)\<close>: the loop over the list of
  iteration numbers. The result is the exception that left the loop, if any, and the state.
\<close>

fun refinement_loop ::
  "analysis_env \<Rightarrow> string \<Rightarrow> pyval list \<Rightarrow> nat list \<Rightarrow> loop_state \<Rightarrow> exn option \<times> loop_state" where
  "refinement_loop env q document_summaries [] st = (None, st)"
| "refinement_loop env q document_summaries (iteration # rest) st =
     (case iteration_body env q document_summaries iteration st of
        Continue st' \<Rightarrow> refinement_loop env q document_summaries rest st'
      | Break st' \<Rightarrow> (None, st')
      | Raise e st' \<Rightarrow> (Some e, st'))"

text \<open>\<open>_get_final_completeness_score\<close>: the first evaluation record of the reversed history.\<close>

fun first_evaluation_score :: "pydict list \<Rightarrow> pyval" where
  "first_evaluation_score [] = PFloat 0"
| "first_evaluation_score (iteration # rest) =
     (if py_get iteration ''type'' = PStr ''evaluation''
      then py_get_default iteration ''completeness_score'' (PFloat 0)
      else first_evaluation_score rest)"

definition get_final_completeness_score :: "pydict list \<Rightarrow> pyval" where
  "get_final_completeness_score history = first_evaluation_score (rev history)"

text \<open>
  \<^verbatim>\<open>len(h.get('queries', []))\<close>; the controller stores only lists under this key, the length
  of a value without a length is taken as 0.
\<close>

definition queries_len :: "pydict \<Rightarrow> nat" where
  "queries_len h =
     (case py_get_default h ''queries'' (PList []) of
        PList qs \<Rightarrow> length qs
      | PStr s \<Rightarrow> length s
      | PDict d \<Rightarrow> length d
      | _ \<Rightarrow> 0)"

definition opt_str :: "string option \<Rightarrow> pyval" where
  "opt_str s = (case s of None \<Rightarrow> PNone | Some t \<Rightarrow> PStr t)"

definition final_results :: "analysis_env \<Rightarrow> string \<Rightarrow> string option \<Rightarrow> pyval list \<Rightarrow> loop_state \<Rightarrow> pydict" where
  "final_results env q cf document_summaries st =
     (let current_analysis = fst st; history = snd st in
      [(''query'', PStr q),
       (''company_filter'', opt_str cf),
       (''final_analysis'', PDict current_analysis),
       (''total_iterations'',
          PInt (int (length (filter (\<lambda>h. py_get h ''type'' = PStr ''evaluation'') history)))),
       (''documents_analyzed'', PInt (int (length document_summaries))),
       (''iteration_history'', PList (map PDict history)),
       (''completed_timestamp'', PStr (now_isoformat env (length history))),
       (''analysis_quality'', PDict
          [(''final_completeness_score'', get_final_completeness_score history),
           (''improvement_achieved'', PBool True),
           (''rag_queries_executed'',
              PInt (int (sum_list (map queries_len
                (filter (\<lambda>h. py_get h ''type'' = PStr ''rag_queries'') history)))))])])"

text \<open>
  The handler of the outer \<^verbatim>\<open>try\<close>: the partial results hold the local variables that exist
  when the exception arrives.
\<close>

definition partial_results ::
  "exn \<Rightarrow> string \<Rightarrow> string option \<Rightarrow> loop_state option \<Rightarrow> pyval list \<Rightarrow> pydict" where
  "partial_results e q cf st document_summaries =
     [(''error'', PStr (exn_str e)),
      (''query'', PStr q),
      (''company_filter'', opt_str cf),
      (''termination_reason'', PStr (''Analysis failed: '' @ exn_str e))]
     @ (case st of
          None \<Rightarrow> []
        | Some s \<Rightarrow>
            [(''final_analysis'', PDict (fst s)),
             (''iteration_history'', PList (map PDict (snd s))),
             (''total_iterations'', PInt (int (length (snd s))))])
     @ [(''documents_analyzed'', PInt (int (length document_summaries)))]"

definition cancelled_before_start :: "pyval list \<Rightarrow> pydict" where
  "cancelled_before_start document_summaries =
     [(''error'', PStr ''cancelled''),
      (''cancelled'', PBool True),
      (''final_analysis'', PDict []),
      (''iteration_history'', PList []),
      (''total_iterations'', PInt 0),
      (''documents_analyzed'', PInt (int (length document_summaries))),
      (''analysis_quality'', PDict
         [(''final_completeness_score'', PInt 0),
          (''improvement_achieved'', PBool False),
          (''rag_queries_executed'', PInt 0)]),
      (''termination_reason'', PStr ''User cancelled before analysis started'')]"

definition run_iterative_analysis :: "analysis_env \<Rightarrow> string \<Rightarrow> string option \<Rightarrow> pydict" where
  "run_iterative_analysis env q cf =
     (if \<not> openai_client env then [(''error'', PStr ''OpenAI client not configured'')]
      else
       (let document_summaries = get_document_summaries env cf in
        if document_summaries = []
        then [(''error'', PStr ''No documents available for analysis''),
              (''query'', PStr q), (''company_filter'', opt_str cf)]
        else
         (case cancel_check env BeforeInitial of
            Inl e \<Rightarrow> partial_results e q cf None document_summaries
          | Inr True \<Rightarrow> cancelled_before_start document_summaries
          | Inr False \<Rightarrow>
             (let current_analysis = generate_initial_analysis env q document_summaries in
              if py_in ''error'' current_analysis then current_analysis
              else
               (let history = [initial_analysis_record (now_isoformat env 0) current_analysis] in
                case refinement_loop env q document_summaries [1 ..< Suc max_iterations]
                       (current_analysis, history) of
                  (Some e, st) \<Rightarrow> partial_results e q cf (Some st) document_summaries
                | (None, st) \<Rightarrow>
                   (let results = final_results env q cf document_summaries st in
                    case cancel_check env AfterLoop of
                      Inl e \<Rightarrow> partial_results e q cf (Some st) document_summaries
                    | Inr True \<Rightarrow>
                        dict_set (dict_set results ''cancelled'' (PBool True))
                          ''termination_reason'' (PStr ''User cancelled analysis'')
                    | Inr False \<Rightarrow> results))))))"


section \<open>Strings\<close>

text \<open>\<^verbatim>\<open>s.startswith(p)\<close>, \<^verbatim>\<open>needle in s\<close>, \<^verbatim>\<open>s.lower()\<close>, \<^verbatim>\<open>s.strip()\<close>, \<^verbatim>\<open>sep.join(xs)\<close>.\<close>

definition startswith :: "string \<Rightarrow> string \<Rightarrow> bool" where
  "startswith s p = (take (length p) s = p)"

fun contains :: "string \<Rightarrow> string \<Rightarrow> bool" where
  "contains [] needle = (needle = [])"
| "contains (c # s) needle = (startswith (c # s) needle \<or> contains s needle)"

definition lower_char :: "char \<Rightarrow> char" where
  "lower_char c =
     (if (65::nat) \<le> of_char c \<and> (of_char c :: nat) \<le> 90 then char_of (of_char c + (32::nat)) else c)"

definition lower :: "string \<Rightarrow> string" where
  "lower s = map lower_char s"

definition is_space :: "char \<Rightarrow> bool" where
  "is_space c = ((of_char c :: nat) \<in> {9, 10, 11, 12, 13, 28, 29, 30, 31, 32})"

definition strip :: "string \<Rightarrow> string" where
  "strip s = rev (dropWhile is_space (rev (dropWhile is_space s)))"

fun join :: "string \<Rightarrow> string list \<Rightarrow> string" where
  "join sep [] = []"
| "join sep [x] = x"
| "join sep (x # y # ys) = x @ sep @ join sep (y # ys)"

text \<open>
  \<^verbatim>\<open>s.split(sep)\<close> for a non-empty separator: the pieces between the occurrences of \<open>sep\<close>,
  found from the left. \<open>piece\<close> is the piece under construction.
\<close>

function py_split_aux :: "string \<Rightarrow> string \<Rightarrow> string \<Rightarrow> string list" where
  "py_split_aux sep piece [] = [piece]"
| "py_split_aux sep piece (c # s) =
     (if sep \<noteq> [] \<and> startswith (c # s) sep
      then piece # py_split_aux sep [] (drop (length sep) (c # s))
      else py_split_aux sep (piece @ [c]) s)"
  by pat_completeness auto
termination
  by (relation "measure (\<lambda>(sep, piece, s). length s)") auto

definition py_split :: "string \<Rightarrow> string \<Rightarrow> string list" where
  "py_split s sep = py_split_aux sep [] s"

text \<open>\<^verbatim>\<open>xs[i]\<close> for \<open>i \<ge> 0\<close>, \<^verbatim>\<open>d[k]\<close>, and the sequencing of steps that may raise.\<close>

definition py_index :: "'a list \<Rightarrow> nat \<Rightarrow> exn + 'a" where
  "py_index xs i = (if i < length xs then Inr (xs ! i) else Inl IndexError)"


definition ebind :: "exn + 'a \<Rightarrow> ('a \<Rightarrow> exn + 'b) \<Rightarrow> exn + 'b" where
  "ebind m f = (case m of Inl e \<Rightarrow> Inl e | Inr x \<Rightarrow> f x)"

text \<open>A method of \<^verbatim>\<open>dict\<close> or \<^verbatim>\<open>str\<close> called on a value of another type: \<^verbatim>\<open>AttributeError\<close>.\<close>

definition as_dict :: "pyval \<Rightarrow> exn + pydict" where
  "as_dict v = (case v of PDict d \<Rightarrow> Inr d | _ \<Rightarrow> Inl AttributeError)"


text \<open>The removal of a Markdown code fence around the JSON text of an LLM answer.\<close>

definition strip_fences :: "string \<Rightarrow> exn + string" where
  "strip_fences response_text =
     (if startswith response_text ''```json''
      then ebind (py_index (py_split response_text ''```json'') 1) (\<lambda>a. py_index (py_split a ''```'') 0)
      else if startswith response_text ''```''
      then ebind (py_index (py_split response_text ''```'') 1) (\<lambda>a. py_index (py_split a ''```'') 0)
      else Inr response_text)"


section \<open>The RAG grader and web augmenter (\<^verbatim>\<open>backend/services/gemini_validation_service.py\<close>)\<close>

text \<open>
  The service holds two flags and a client. A call of the client either raises or gives a
  response whose \<^verbatim>\<open>text\<close> is a string or \<^verbatim>\<open>None\<close>; the prompt is a fixed template around the
  query (and, for the grader, the combined RAG answer), so the answer is indexed by these.
  \<open>json_loads\<close> is \<^verbatim>\<open>json.loads\<close>, \<open>gemini_now\<close> the clock at the three places that read it.
\<close>

record gemini_env =
  is_configured :: bool
  validation_enabled :: bool
  generate_validation :: "string \<Rightarrow> string \<Rightarrow> exn + string option"
  generate_search :: "string \<Rightarrow> exn + string option"
  json_loads :: "string \<Rightarrow> exn + pyval"
  gemini_now :: "nat \<Rightarrow> string"

definition validation_unavailable :: pydict where
  "validation_unavailable =
     [(''validation_available'', PBool False), (''validation_passed'', PBool True),
      (''reasoning'', PStr ''Gemini validation not available''),
      (''confidence_score'', PFloat (1 / 2))]"

definition validation_parse_failure :: pydict where
  "validation_parse_failure =
     [(''validation_available'', PBool True), (''validation_passed'', PBool False),
      (''reasoning'', PStr ''Failed to parse validation response''),
      (''confidence_score'', PFloat 0)]"

definition validation_error :: "exn \<Rightarrow> pydict" where
  "validation_error e =
     [(''validation_available'', PBool False), (''validation_passed'', PBool True),
      (''reasoning'', PStr (''Validation error: '' @ exn_str e)),
      (''confidence_score'', PFloat (1 / 2))]"

text \<open>
  The inner \<^verbatim>\<open>try\<close>: fence removal, \<^verbatim>\<open>json.loads\<close> and the log line that calls \<^verbatim>\<open>get\<close> on
  the parsed value. Only \<^verbatim>\<open>JSONDecodeError\<close> is handled here.
\<close>

definition parse_validation :: "gemini_env \<Rightarrow> string \<Rightarrow> exn + pydict" where
  "parse_validation env response_text =
     (case ebind (strip_fences response_text) (json_loads env) of
        Inl e \<Rightarrow> (if e = JSONDecodeError then Inr validation_parse_failure else Inl e)
      | Inr validation_result \<Rightarrow> as_dict validation_result)"

text \<open>The body of the outer \<^verbatim>\<open>try\<close>.\<close>

definition combined_response :: "string list \<Rightarrow> string" where
  "combined_response rag_response =
     (if rag_response \<noteq> [] then join [CHR 0x0A] rag_response else ''No response available'')"

definition validate_body :: "gemini_env \<Rightarrow> string \<Rightarrow> string list \<Rightarrow> exn + pydict" where
  "validate_body env q rag_response =
     (case generate_validation env q (combined_response rag_response) of
        Inl e \<Rightarrow> Inl e
      | Inr None \<Rightarrow> Inl AttributeError
      | Inr (Some text) \<Rightarrow> parse_validation env (strip text))"

definition validate_rag_response :: "gemini_env \<Rightarrow> string \<Rightarrow> string list \<Rightarrow> exn + pydict" where
  "validate_rag_response env q rag_response =
     (if \<not> is_configured env \<or> \<not> validation_enabled env then Inr validation_unavailable
      else (case validate_body env q rag_response of
              Inl e \<Rightarrow> Inr (validation_error e)
            | Inr validation_result \<Rightarrow> Inr validation_result))"

text \<open>
  The quality heuristic on the text of a web search answer. Its \<^verbatim>\<open>try\<close> holds only
  operations on a string that cannot raise, so the handler is never reached.
\<close>

definition source_indicators :: "string list" where
  "source_indicators =
     [''reuters'', ''bloomberg'', ''wall street journal'', ''financial times'',
      ''sec filing'', ''10-k'', ''10-q'', ''federal reserve'', ''treasury'',
      ''yahoo finance'', ''marketwatch'', ''source:'', ''according to'']"

definition data_indicators :: "string list" where
  "data_indicators =
     [''$'', ''%'', ''billion'', ''million'', ''quarter'', ''Q1'', ''Q2'', ''Q3'', ''Q4'',
      ''2024'', ''2025'', ''fiscal year'']"

definition timeframe_indicators :: "string list" where
  "timeframe_indicators =
     [''as of'', ''current'', ''latest'', ''recent'', ''today'', ''this year'',
      ''january'', ''february'', ''march'', ''april'', ''may'', ''june'',
      ''july'', ''august'', ''september'', ''october'', ''november'', ''december'']"

definition disclaimer_phrases :: "string list" where
  "disclaimer_phrases = [''cannot provide'', ''unable to access'', ''no information available'']"

definition has_sources :: "string \<Rightarrow> bool" where
  "has_sources search_response = list_ex (contains (lower search_response)) source_indicators"

definition has_specific_data :: "string \<Rightarrow> bool" where
  "has_specific_data search_response = list_ex (contains search_response) data_indicators"

definition has_timeframe :: "string \<Rightarrow> bool" where
  "has_timeframe search_response = list_ex (contains (lower search_response)) timeframe_indicators"

definition appropriate_length :: "string \<Rightarrow> bool" where
  "appropriate_length search_response =
     (100 < length search_response \<and> length search_response < 2000)"

definition no_disclaimers_only :: "string \<Rightarrow> bool" where
  "no_disclaimers_only search_response =
     (\<not> (length search_response < 200
         \<and> list_ex (contains (lower search_response)) disclaimer_phrases))"

definition quality_indicators :: "string \<Rightarrow> (string \<times> bool) list" where
  "quality_indicators search_response =
     [(''has_sources'', has_sources search_response),
      (''has_specific_data'', has_specific_data search_response),
      (''has_timeframe'', has_timeframe search_response),
      (''appropriate_length'', appropriate_length search_response),
      (''no_disclaimers_only'', no_disclaimers_only search_response)]"

text \<open>\<^verbatim>\<open>sum(quality_indicators.values()) / len(quality_indicators)\<close>: a \<^verbatim>\<open>True\<close> counts 1.\<close>

definition quality_score :: "(string \<times> bool) list \<Rightarrow> rat" where
  "quality_score indicators =
     of_nat (sum_list (map (\<lambda>kv. if snd kv then 1 else 0) indicators)) / of_nat (length indicators)"

definition indicator :: "(string \<times> bool) list \<Rightarrow> string \<Rightarrow> bool" where
  "indicator indicators k = (map_of indicators k = Some True)"

definition meets_standards :: "(string \<times> bool) list \<Rightarrow> bool" where
  "meets_standards indicators =
     (indicator indicators ''has_specific_data'' \<and> indicator indicators ''appropriate_length''
      \<and> indicator indicators ''no_disclaimers_only'' \<and> quality_score indicators \<ge> 6 / 10)"

definition validate_financial_search_quality :: "string \<Rightarrow> string \<Rightarrow> string \<Rightarrow> pydict" where
  "validate_financial_search_quality search_response q ts =
     (let indicators = quality_indicators search_response in
      [(''quality_score'', PFloat (quality_score indicators)),
       (''meets_financial_standards'', PBool (meets_standards indicators)),
       (''quality_indicators'', PDict (map (\<lambda>kv. (fst kv, PBool (snd kv))) indicators)),
       (''assessment_timestamp'', PStr ts),
       (''recommendation'', PStr (if meets_standards indicators then ''use'' else ''review_carefully''))])"

definition search_error :: "exn \<Rightarrow> pydict" where
  "search_error e =
     [(''search_available'', PBool False), (''response'', PNone),
      (''reasoning'', PStr (''Search error: '' @ exn_str e)), (''error'', PStr (exn_str e))]"

definition search_with_gemini :: "gemini_env \<Rightarrow> string \<Rightarrow> pydict" where
  "search_with_gemini env q =
     (if \<not> is_configured env \<or> \<not> validation_enabled env
      then [(''search_available'', PBool False), (''response'', PNone),
            (''reasoning'', PStr ''Gemini search not available'')]
      else (case generate_search env q of
              Inl e \<Rightarrow> search_error e
            | Inr None \<Rightarrow> search_error AttributeError
            | Inr (Some text) \<Rightarrow>
               (let search_response = strip text;
                    quality_check = validate_financial_search_quality search_response q (gemini_now env 0)
                in [(''search_available'', PBool True), (''response'', PStr search_response),
                    (''query'', PStr q), (''timestamp'', PStr (gemini_now env 1)),
                    (''source'', PStr ''gemini_search''),
                    (''quality_assessment'', PDict quality_check)])))"

text \<open>
  The pipeline. \<^verbatim>\<open>validation_result.get('validation_passed', True) == False\<close> is the
  equality of Python, under which \<^verbatim>\<open>0\<close> equals \<^verbatim>\<open>False\<close>.
\<close>

definition validate_and_enhance_rag_response :: "gemini_env \<Rightarrow> string \<Rightarrow> string list \<Rightarrow> exn + pydict" where
  "validate_and_enhance_rag_response env q rag_response =
     ebind (validate_rag_response env q rag_response) (\<lambda>validation_result.
       (let enhanced_response =
              (if py_eq (py_get_default validation_result ''validation_passed'' (PBool True)) (PBool False)
               then Some (search_with_gemini env q) else None)
        in Inr [(''query'', PStr q),
                (''original_rag_response'', PList (map PStr rag_response)),
                (''validation_result'', PDict validation_result),
                (''enhanced_response'', (case enhanced_response of None \<Rightarrow> PNone | Some e \<Rightarrow> PDict e)),
                (''final_source'',
                   PStr (case enhanced_response of
                           None \<Rightarrow> ''rag''
                         | Some e \<Rightarrow> (if e \<noteq> [] \<and> truthy (py_get e ''search_available'')
                                      then ''gemini_search'' else ''rag''))),
                (''timestamp'', PStr (gemini_now env 2))]))"

definition quality_warning :: string where
  "quality_warning = [CHR 0x0A, CHR 0x0A] @
     ''[Note: This information from web search may not meet all financial data quality standards. Please verify with authoritative sources.]''"

definition get_final_response :: "pydict \<Rightarrow> exn + pyval" where
  "get_final_response validation_result =
     (let enhanced_response = py_get validation_result ''enhanced_response'';
          fallback = Inr (py_get_default validation_result ''original_rag_response'' (PList []))
      in if \<not> truthy enhanced_response then fallback
         else ebind (as_dict enhanced_response) (\<lambda>e.
           if truthy (py_get e ''search_available'') \<and> truthy (py_get e ''response'')
           then ebind (as_dict (py_get_default e ''quality_assessment'' (PDict []))) (\<lambda>quality_assessment.
                  if truthy (py_get_default quality_assessment ''meets_financial_standards'' (PBool True))
                  then Inr (PList [py_get e ''response''])
                  else (case py_get e ''response'' of
                          PStr r \<Rightarrow> Inr (PList [PStr (r @ quality_warning)])
                        | _ \<Rightarrow> Inl TypeError))
           else fallback))"


section \<open>The RAG gateway and document registry (\<^verbatim>\<open>backend/services/cognee_service.py\<close>)\<close>

text \<open>
  Library functions whose code is not part of the repository are parameters: the two
  digests of \<^verbatim>\<open>hashlib\<close> (as functions from text to hexadecimal text),
  \<^verbatim>\<open>json.dumps(..., sort_keys=True)\<close> and the formatting of a value inside an f-string.
\<close>

record library =
  sha256 :: "string \<Rightarrow> string"
  md5 :: "string \<Rightarrow> string"
  json_dumps :: "pyval \<Rightarrow> string"
  str_of :: "pyval \<Rightarrow> string"

datatype SearchType = INSIGHTS | CHUNKS | GRAPH_COMPLETION | SUMMARIES

text \<open>
  The state of one service object: the configuration flag (\<^verbatim>\<open>is_configured\<close>), the search
  cache (a dictionary from cache key to result list) and the document registry (a dictionary
  from fingerprint to document information, in insertion order). The RAG store itself and
  the files are outside; \<^verbatim>\<open>_run_async\<close> only runs the coroutine it is given.
\<close>

record CogneeService =
  cognee_configured :: bool
  search_cache :: "string \<rightharpoonup> string list"
  document_registry :: "(string \<times> pydict) list"

definition create_cache_key :: "library \<Rightarrow> string \<Rightarrow> string \<Rightarrow> string" where
  "create_cache_key lib q search_type = md5 lib (q @ '':'' @ search_type)"

definition search_type_map :: "(string \<times> SearchType) list" where
  "search_type_map =
     [(''insights'', INSIGHTS), (''chunks'', CHUNKS), (''graph'', GRAPH_COMPLETION),
      (''completion'', GRAPH_COMPLETION), (''summaries'', SUMMARIES), (''natural'', GRAPH_COMPLETION)]"

text \<open>
  \<open>search_context lib backend svc q search_type\<close>: \<open>backend\<close> is the answer of the store to
  \<^verbatim>\<open>_search_context_async\<close> at the time of the call (a list of strings; that method catches
  every exception). The result is the returned list and the new state.
\<close>

definition search_context ::
  "library \<Rightarrow> (string \<Rightarrow> SearchType \<Rightarrow> string list) \<Rightarrow> CogneeService \<Rightarrow> string \<Rightarrow> string
     \<Rightarrow> string list \<times> CogneeService" where
  "search_context lib backend svc q search_type =
     (if \<not> cognee_configured svc then ([], svc)
      else
       (let cache_key = create_cache_key lib q search_type in
        case search_cache svc cache_key of
          Some cached \<Rightarrow> (cached, svc)
        | None \<Rightarrow>
           (let cognee_search_type =
                  (case map_of search_type_map (lower search_type) of
                     None \<Rightarrow> GRAPH_COMPLETION | Some t \<Rightarrow> t);
                results = backend q cognee_search_type
            in (results, svc\<lparr>search_cache := (search_cache svc)(cache_key \<mapsto> results)\<rparr>))))"

text \<open>
  \<open>prune_data outcome svc\<close>: \<open>outcome\<close> tells whether the pruning of the store and the
  removal of the files went through or raised. \<open>complete_reset\<close> likewise for the removal
  and re-creation of the directories.
\<close>

definition prune_data_async :: "exn + unit \<Rightarrow> CogneeService \<Rightarrow> bool \<times> CogneeService" where
  "prune_data_async outcome svc =
     (case outcome of
        Inl e \<Rightarrow> (False, svc)
      | Inr u \<Rightarrow> (True, svc\<lparr>document_registry := []\<rparr>))"

definition prune_data :: "exn + unit \<Rightarrow> CogneeService \<Rightarrow> bool \<times> CogneeService" where
  "prune_data outcome svc =
     (if \<not> cognee_configured svc then (False, svc) else prune_data_async outcome svc)"

definition complete_reset :: "exn + unit \<Rightarrow> CogneeService \<Rightarrow> bool \<times> CogneeService" where
  "complete_reset outcome svc =
     (case outcome of
        Inl e \<Rightarrow> (False, svc)
      | Inr u \<Rightarrow> (True, svc\<lparr>search_cache := Map.empty, document_registry := []\<rparr>))"










section \<open>Notions used in the statements\<close>

text \<open>A history record of type \<^verbatim>\<open>evaluation\<close>.\<close>

definition is_evaluation :: "pydict \<Rightarrow> bool" where
  "is_evaluation h = (py_get h ''type'' = PStr ''evaluation'')"

text \<open>
  An evaluation record whose parsed evaluation says that the analysis is complete: its
  \<^verbatim>\<open>is_analysis_complete\<close> holds or its \<^verbatim>\<open>completeness_score\<close> is at least 7.
\<close>

definition evaluation_complete :: "pydict \<Rightarrow> bool" where
  "evaluation_complete h =
     (is_evaluation h \<and>
      (case py_get h ''evaluation'' of
         PDict ev \<Rightarrow> truthy (py_get_default ev ''is_analysis_complete'' (PBool False))
                   \<or> py_ge (py_get_default ev ''completeness_score'' (PInt 0)) (PInt 7) = Inr True
       | _ \<Rightarrow> False))"

text \<open>The history that a result dictionary carries, as a list of records.\<close>

definition as_dicts :: "pyval list \<Rightarrow> pydict list" where
  "as_dicts vs = map (\<lambda>v. case v of PDict d \<Rightarrow> d | _ \<Rightarrow> []) vs"

definition result_history :: "pydict \<Rightarrow> pydict list" where
  "result_history r = (case py_get r ''iteration_history'' of PList vs \<Rightarrow> as_dicts vs | _ \<Rightarrow> [])"

text \<open>
  The draft fails: the dictionary of the initial analysis has an \<^verbatim>\<open>error\<close> key. The controller
  then returns that dictionary unchanged and never enters the loop.
\<close>

definition draft_failed :: "analysis_env \<Rightarrow> string \<Rightarrow> string option \<Rightarrow> bool" where
  "draft_failed env q cf =
     py_in ''error'' (generate_initial_analysis env q (get_document_summaries env cf))"


definition reported_final_score :: "pydict \<Rightarrow> pyval option" where
  "reported_final_score r =
     (case map_of r ''analysis_quality'' of
        Some (PDict quality) \<Rightarrow> map_of quality ''final_completeness_score''
      | _ \<Rightarrow> None)"

text \<open>The state in which the refinement loop starts.\<close>

definition loop_start :: "analysis_env \<Rightarrow> string \<Rightarrow> string option \<Rightarrow> loop_state" where
  "loop_start env q cf =
     (generate_initial_analysis env q (get_document_summaries env cf),
      [initial_analysis_record (now_isoformat env 0)
         (generate_initial_analysis env q (get_document_summaries env cf))])"

fun step_state :: "loop_step \<Rightarrow> loop_state" where
  "step_state (Continue st) = st"
| "step_state (Break st) = st"
| "step_state (Raise e st) = st"

fun is_continue :: "loop_step \<Rightarrow> bool" where
  "is_continue (Continue st) = True"
| "is_continue (Break st) = False"
| "is_continue (Raise e st) = False"


text \<open>What the refinement loop of a run returns: the exception that left it, if any, and the state.\<close>

definition loop_result :: "analysis_env \<Rightarrow> string \<Rightarrow> string option \<Rightarrow> exn option \<times> loop_state" where
  "loop_result env q cf =
     refinement_loop env q (get_document_summaries env cf) [1 ..< Suc max_iterations]
       (loop_start env q cf)"


text \<open>
  An outside world for examples: one document, a draft that parses, every evaluation with the
  given score and \<^verbatim>\<open>is_analysis_complete = false\<close>, one query per retrieval, a refinement
  that parses, and the given cancellation callback.
\<close>

definition example_env :: "pyval \<Rightarrow> (cancel_point \<Rightarrow> exn + bool) option \<Rightarrow> analysis_env" where
  "example_env score cancel =
     \<lparr>openai_client = True,
      get_document_summaries = (\<lambda>cf. [PDict [(''company_name'', PStr ''Apple Inc.'')]]),
      should_cancel = cancel,
      generate_initial_analysis = (\<lambda>q d. [(''recommendation'', PStr ''Hold'')]),
      question_analysis_completeness =
        (\<lambda>i a q. [(''completeness_score'', score), (''is_analysis_complete'', PBool False)]),
      generate_targeted_rag_queries = (\<lambda>i ev d. [PStr ''What is the revenue?'']),
      execute_function = (\<lambda>i k rq. PDict [(''query'', rq), (''results'', PList [])]),
      refine_analysis_with_rag_results = (\<lambda>i a rs q. [(''recommendation'', PStr ''Buy'')]),
      now_isoformat = (\<lambda>n. ''2025-01-01T10:00:00'')\<rparr>"



text \<open>An evaluation record carries a \<^verbatim>\<open>completeness_score\<close> key.\<close>

definition has_score :: "pydict \<Rightarrow> bool" where
  "has_score h = (is_evaluation h \<longrightarrow> map_of h ''completeness_score'' \<noteq> None)"


text \<open>
  A grader service for examples: configured, with the given answers of the grading call, of
  \<^verbatim>\<open>json.loads\<close> and of the search call.
\<close>

definition example_gemini :: "(exn + string option) \<Rightarrow> (exn + pyval) \<Rightarrow> (exn + string option) \<Rightarrow> gemini_env" where
  "example_gemini graded parsed found =
     \<lparr>is_configured = True, validation_enabled = True,
      generate_validation = (\<lambda>q c. graded),
      generate_search = (\<lambda>q. found),
      json_loads = (\<lambda>s. parsed),
      gemini_now = (\<lambda>n. ''2025-01-01T10:00:00'')\<rparr>"


text \<open>
  What a result of the grader pipeline says about the web augmentation: whether the search
  succeeded, the text it found, and whether its quality assessment meets the standards.
\<close>

definition search_succeeded :: "pydict \<Rightarrow> bool" where
  "search_succeeded vr =
     (case py_get vr ''enhanced_response'' of
        PDict e \<Rightarrow> truthy (py_get e ''search_available'')
      | _ \<Rightarrow> False)"

definition augmented_text :: "pydict \<Rightarrow> string option" where
  "augmented_text vr =
     (case py_get vr ''enhanced_response'' of
        PDict e \<Rightarrow> (case py_get e ''response'' of PStr t \<Rightarrow> Some t | _ \<Rightarrow> None)
      | _ \<Rightarrow> None)"

definition meets_financial_standards :: "pydict \<Rightarrow> bool" where
  "meets_financial_standards vr =
     (case py_get vr ''enhanced_response'' of
        PDict e \<Rightarrow>
          (case py_get e ''quality_assessment'' of
             PDict qa \<Rightarrow> py_get qa ''meets_financial_standards'' = PBool True
           | _ \<Rightarrow> False)
      | _ \<Rightarrow> False)"

text \<open>The two dictionaries the pipeline builds: the answer of a successful search, and its result.\<close>

definition search_found :: "gemini_env \<Rightarrow> string \<Rightarrow> string \<Rightarrow> pydict" where
  "search_found env q t =
     [(''search_available'', PBool True), (''response'', PStr t),
      (''query'', PStr q), (''timestamp'', PStr (gemini_now env 1)),
      (''source'', PStr ''gemini_search''),
      (''quality_assessment'', PDict (validate_financial_search_quality t q (gemini_now env 0)))]"

definition pipeline_result :: "gemini_env \<Rightarrow> string \<Rightarrow> string list \<Rightarrow> pydict \<Rightarrow> pydict option \<Rightarrow> pydict" where
  "pipeline_result env q rag v enh =
     [(''query'', PStr q),
      (''original_rag_response'', PList (map PStr rag)),
      (''validation_result'', PDict v),
      (''enhanced_response'', (case enh of None \<Rightarrow> PNone | Some e \<Rightarrow> PDict e)),
      (''final_source'',
         PStr (case enh of
                 None \<Rightarrow> ''rag''
               | Some e \<Rightarrow> (if e \<noteq> [] \<and> truthy (py_get e ''search_available'')
                            then ''gemini_search'' else ''rag''))),
      (''timestamp'', PStr (gemini_now env 2))]"




section \<open>The job model: frame of a progress update\<close>




section \<open>The job model: the latest analysis of a terminated job\<close>

text \<open>
  C1. A history as the controller writes it, with an initial analysis and a later record of
  type \<^verbatim>\<open>refined_analysis\<close>: \<open>get_latest_iteration_analysis\<close> returns the payload of the
  initial analysis, not that of the later refined analysis, because it looks for records of
  type \<^verbatim>\<open>refinement\<close>, a type the controller never writes.
\<close>

theorem latest_iteration_analysis_ignores_refined:
  "get_latest_iteration_analysis
     \<lparr>query = ''Analyze Apple'', company_filter = None,
      final_analysis = PDict [(''recommendation'', PStr ''Buy'')],
      iteration_history = PList
        [PDict (initial_analysis_record ''2025-01-01T10:00:00'' [(''recommendation'', PStr ''Hold'')]),
         PDict (refined_analysis_record 1 ''2025-01-01T10:05:00'' [(''recommendation'', PStr ''Buy'')])],
      cancel_requested = True, total_iterations = PInt 1, documents_analyzed = PInt 1,
      rag_queries_executed = PInt 3, final_completeness_score = PInt 5,
      created_at = ''2025-01-01T09:59:00'', completed_at = Some ''2025-01-01T10:06:00'',
      status = ''CANCELLED'', error_message = Some ''User cancelled analysis''\<rparr>
   = Inr (PDict [(''recommendation'', PStr ''Hold'')])"
  by (simp add: get_latest_iteration_analysis_def initial_analysis_record_def
      refined_analysis_record_def py_get_def py_get_default_def)


section \<open>The controller: facts about the loop\<close>

lemma is_evaluation_records [simp]:
  "is_evaluation (evaluation_record i ts ev sc ic)"
  "\<not> is_evaluation (rag_queries_record i ts qs rs)"
  "\<not> is_evaluation (refined_analysis_record i ts ra)"
  "\<not> is_evaluation (initial_analysis_record ts a)"
  by (simp_all add: is_evaluation_def evaluation_record_def rag_queries_record_def
      refined_analysis_record_def initial_analysis_record_def py_get_def py_get_default_def)

lemma evaluation_complete_records [simp]:
  "evaluation_complete (evaluation_record i ts ev
       (py_get_default ev ''completeness_score'' (PInt 0))
       (py_get_default ev ''is_analysis_complete'' (PBool False)))
     = (truthy (py_get_default ev ''is_analysis_complete'' (PBool False))
        \<or> py_ge (py_get_default ev ''completeness_score'' (PInt 0)) (PInt 7) = Inr True)"
  "\<not> evaluation_complete (rag_queries_record i ts qs rs)"
  "\<not> evaluation_complete (refined_analysis_record i ts ra)"
  "\<not> evaluation_complete (initial_analysis_record ts a)"
  by (simp_all add: evaluation_complete_def)
     (simp add: evaluation_record_def py_get_def py_get_default_def)

lemmas body_defs = iteration_body_def retrieve_step_def refine_step_def Let_def



lemma body_complete:
  assumes "list_all (\<lambda>h. \<not> evaluation_complete h) (snd st)"
  shows "(is_continue (iteration_body env q d i st)
            \<and> list_all (\<lambda>h. \<not> evaluation_complete h) (snd (step_state (iteration_body env q d i st))))
         \<or> (\<not> is_continue (iteration_body env q d i st)
            \<and> list_all (\<lambda>h. \<not> evaluation_complete h)
                 (butlast (snd (step_state (iteration_body env q d i st)))))"
  using assms
  by (auto simp: body_defs butlast_append list_all_iff split: sum.splits bool.splits dest: in_set_butlastD)

lemma loop_complete:
  "list_all (\<lambda>h. \<not> evaluation_complete h) (snd st) \<Longrightarrow>
   list_all (\<lambda>h. \<not> evaluation_complete h) (butlast (snd (snd (refinement_loop env q d iters st))))"
proof (induction iters arbitrary: st)
  case Nil
  then show ?case by (auto simp: list_all_iff dest: in_set_butlastD)
next
  case (Cons i iters)
  from body_complete[OF Cons.prems, of env q d i] Cons.IH
  show ?case by (cases "iteration_body env q d i st") auto
qed

lemma as_dicts_map [simp]: "as_dicts (map PDict h) = h"
  by (induction h) (simp_all add: as_dicts_def)

lemma map_of_dict_set: "map_of (dict_set d k v) k' = (if k' = k then Some v else map_of d k')"
  by (induction d) auto

lemma result_history_final [simp]:
  "result_history (final_results env q cf d st) = snd st"
  by (simp add: result_history_def final_results_def py_get_def py_get_default_def Let_def)

lemma result_history_partial [simp]:
  "result_history (partial_results e q cf (Some st) d) = snd st"
  "result_history (partial_results e q cf None d) = []"
  by (simp_all add: result_history_def partial_results_def py_get_def py_get_default_def)

lemma result_history_cancelled_before [simp]:
  "result_history (cancelled_before_start d) = []"
  by (simp add: result_history_def cancelled_before_start_def py_get_def py_get_default_def as_dicts_def)

lemma result_history_cancelled [simp]:
  "result_history (dict_set (dict_set (final_results env q cf d st) ''cancelled'' x)
      ''termination_reason'' y) = snd st"
proof -
  have "py_get (dict_set (dict_set (final_results env q cf d st) ''cancelled'' x)
      ''termination_reason'' y) ''iteration_history'' = py_get (final_results env q cf d st) ''iteration_history''"
    by (simp add: py_get_def py_get_default_def map_of_dict_set)
  then show ?thesis using result_history_final[of env q cf d st]
    by (simp add: result_history_def)
qed

lemma run_enters_loop:
  assumes "openai_client env" and "get_document_summaries env cf \<noteq> []"
    and "cancel_check env BeforeInitial = Inr False" and "\<not> draft_failed env q cf"
  shows "run_iterative_analysis env q cf =
     (case loop_result env q cf of
        (Some e, st) \<Rightarrow> partial_results e q cf (Some st) (get_document_summaries env cf)
      | (None, st) \<Rightarrow>
          (case cancel_check env AfterLoop of
             Inl e \<Rightarrow> partial_results e q cf (Some st) (get_document_summaries env cf)
           | Inr True \<Rightarrow>
               dict_set (dict_set (final_results env q cf (get_document_summaries env cf) st)
                           ''cancelled'' (PBool True))
                 ''termination_reason'' (PStr ''User cancelled analysis'')
           | Inr False \<Rightarrow> final_results env q cf (get_document_summaries env cf) st))"
  unfolding run_iterative_analysis_def draft_failed_def loop_start_def loop_result_def Let_def
  using assms unfolding draft_failed_def
  by (simp del: upt_Suc)

lemma run_history_cases:
  assumes "\<not> draft_failed env q cf"
  shows "result_history (run_iterative_analysis env q cf) = []
       \<or> result_history (run_iterative_analysis env q cf) = snd (snd (loop_result env q cf))"
proof (cases "openai_client env \<and> get_document_summaries env cf \<noteq> []
              \<and> cancel_check env BeforeInitial = Inr False")
  case True
  then have "run_iterative_analysis env q cf =
     (case loop_result env q cf of
        (Some e, st) \<Rightarrow> partial_results e q cf (Some st) (get_document_summaries env cf)
      | (None, st) \<Rightarrow>
          (case cancel_check env AfterLoop of
             Inl e \<Rightarrow> partial_results e q cf (Some st) (get_document_summaries env cf)
           | Inr True \<Rightarrow>
               dict_set (dict_set (final_results env q cf (get_document_summaries env cf) st)
                           ''cancelled'' (PBool True))
                 ''termination_reason'' (PStr ''User cancelled analysis'')
           | Inr False \<Rightarrow> final_results env q cf (get_document_summaries env cf) st))"
    using run_enters_loop[of env cf q] assms by simp
  then have "result_history (run_iterative_analysis env q cf) = snd (snd (loop_result env q cf))"
    by (simp split: prod.splits option.splits sum.splits bool.splits)
  then show ?thesis by simp
next
  case False
  have nc: "\<not> openai_client env \<Longrightarrow> result_history (run_iterative_analysis env q cf) = []"
    by (simp add: run_iterative_analysis_def result_history_def py_get_def py_get_default_def)
  have nd: "openai_client env \<Longrightarrow> get_document_summaries env cf = [] \<Longrightarrow>
      result_history (run_iterative_analysis env q cf) = []"
    by (simp add: run_iterative_analysis_def result_history_def py_get_def py_get_default_def)
  have ci: "openai_client env \<Longrightarrow> get_document_summaries env cf \<noteq> [] \<Longrightarrow>
      cancel_check env BeforeInitial \<noteq> Inr False \<Longrightarrow>
      result_history (run_iterative_analysis env q cf) = []"
    by (cases "cancel_check env BeforeInitial")
       (auto simp add: run_iterative_analysis_def Let_def split: bool.splits)
  from False nc nd ci show ?thesis by blast
qed



lemma example_env_simps:
  "openai_client (example_env score cancel) = True"
  "get_document_summaries (example_env score cancel) cf = [PDict [(''company_name'', PStr ''Apple Inc.'')]]"
  "should_cancel (example_env score cancel) = cancel"
  "generate_initial_analysis (example_env score cancel) q d = [(''recommendation'', PStr ''Hold'')]"
  "question_analysis_completeness (example_env score cancel) i a q
     = [(''completeness_score'', score), (''is_analysis_complete'', PBool False)]"
  "generate_targeted_rag_queries (example_env score cancel) i ev d = [PStr ''What is the revenue?'']"
  "execute_function (example_env score cancel) i k rq = PDict [(''query'', rq), (''results'', PList [])]"
  "refine_analysis_with_rag_results (example_env score cancel) i a rs q = [(''recommendation'', PStr ''Buy'')]"
  "now_isoformat (example_env score cancel) n = ''2025-01-01T10:00:00''"
  by (simp_all add: example_env_def)

lemma ex_body1:
  "iteration_body (example_env (PInt 7) None) q d i (c, h)
   = Break (c, h @ [evaluation_record i ''2025-01-01T10:00:00''
        [(''completeness_score'', PInt 7), (''is_analysis_complete'', PBool False)] (PInt 7) (PBool False)])"
  by (simp add: iteration_body_def example_env_simps cancel_check_def py_in_def py_get_default_def
      py_ge_def Let_def)

lemma ex_hist:
  "result_history (run_iterative_analysis (example_env (PInt 7) None) ''Analyze Apple'' None)
   = [initial_analysis_record ''2025-01-01T10:00:00'' [(''recommendation'', PStr ''Hold'')],
      evaluation_record 1 ''2025-01-01T10:00:00''
        [(''completeness_score'', PInt 7), (''is_analysis_complete'', PBool False)] (PInt 7) (PBool False)]"
proof -
  have d: "\<not> draft_failed (example_env (PInt 7) None) ''Analyze Apple'' None"
    by (simp add: draft_failed_def example_env_simps py_in_def)
  have l: "loop_result (example_env (PInt 7) None) ''Analyze Apple'' None
     = (None, [(''recommendation'', PStr ''Hold'')],
         [initial_analysis_record ''2025-01-01T10:00:00'' [(''recommendation'', PStr ''Hold'')],
      evaluation_record 1 ''2025-01-01T10:00:00''
        [(''completeness_score'', PInt 7), (''is_analysis_complete'', PBool False)] (PInt 7) (PBool False)])"
    unfolding loop_result_def max_iterations_def loop_start_def
    by (simp add: upt_conv_Cons ex_body1 example_env_simps del: upt_Suc)
  show ?thesis
    using run_enters_loop[of "example_env (PInt 7) None" None "''Analyze Apple''"] d l
    by (simp add: example_env_simps cancel_check_def)
qed


section \<open>The controller: a complete evaluation ends the loop\<close>

text \<open>
  C4. In the history of every run whose draft did not fail, an evaluation record whose parsed
  evaluation has \<^verbatim>\<open>is_analysis_complete\<close> true or a \<^verbatim>\<open>completeness_score\<close> of at least 7
  (7 included) is the last record: nothing, so no \<^verbatim>\<open>rag_queries\<close> and no
  \<^verbatim>\<open>refined_analysis\<close> record, is appended after it.
\<close>

theorem complete_evaluation_is_last:
  assumes "\<not> draft_failed env q cf"
    and "k < length (result_history (run_iterative_analysis env q cf))"
    and "evaluation_complete (result_history (run_iterative_analysis env q cf) ! k)"
  shows "Suc k = length (result_history (run_iterative_analysis env q cf))"
proof -
  let ?h = "result_history (run_iterative_analysis env q cf)"
  from assms(2) have "?h \<noteq> []" by auto
  with run_history_cases[OF assms(1)] have h: "?h = snd (snd (loop_result env q cf))" by simp
  have "list_all (\<lambda>h. \<not> evaluation_complete h) (snd (loop_start env q cf))"
    by (simp add: loop_start_def)
  then have "list_all (\<lambda>h. \<not> evaluation_complete h) (butlast ?h)"
    unfolding h loop_result_def by (rule loop_complete)
  then have "\<forall>j < length (butlast ?h). \<not> evaluation_complete (butlast ?h ! j)"
    by (simp add: list_all_length)
  then have "\<forall>j < length ?h - 1. \<not> evaluation_complete (?h ! j)"
    by (simp add: nth_butlast)
  with assms(3) have "\<not> k < length ?h - 1" by blast
  with assms(2) show ?thesis by arith
qed

theorem complete_evaluation_is_last_witness:
  "\<not> draft_failed (example_env (PInt 7) None) ''Analyze Apple'' None
   \<and> 1 < length (result_history (run_iterative_analysis (example_env (PInt 7) None) ''Analyze Apple'' None))
   \<and> evaluation_complete
        (result_history (run_iterative_analysis (example_env (PInt 7) None) ''Analyze Apple'' None) ! 1)
   \<and> Suc 1 = length (result_history (run_iterative_analysis (example_env (PInt 7) None) ''Analyze Apple'' None))"
proof -
  have d: "\<not> draft_failed (example_env (PInt 7) None) ''Analyze Apple'' None"
    by (simp add: draft_failed_def example_env_simps py_in_def)
  have k: "1 < length (result_history (run_iterative_analysis (example_env (PInt 7) None) ''Analyze Apple'' None))"
    by (simp add: ex_hist)
  have c: "evaluation_complete
        (result_history (run_iterative_analysis (example_env (PInt 7) None) ''Analyze Apple'' None) ! 1)"
    by (simp add: ex_hist evaluation_complete_def is_evaluation_def evaluation_record_def
        py_get_def py_get_default_def py_ge_def)
  from complete_evaluation_is_last [OF d k c] d k c show ?thesis by simp
qed


section \<open>The controller: the cap on the iterations\<close>












section \<open>The controller: the final completeness score\<close>

lemma has_score_records [simp]:
  "has_score (evaluation_record i ts ev sc ic)"
  "has_score (rag_queries_record i ts qs rs)"
  "has_score (refined_analysis_record i ts ra)"
  "has_score (initial_analysis_record ts a)"
  by (simp_all add: has_score_def) (simp add: evaluation_record_def)






lemma reported_final [simp]:
  "reported_final_score (final_results env q cf d st) = Some (get_final_completeness_score (snd st))"
  "reported_final_score (dict_set (dict_set (final_results env q cf d st) ''cancelled'' x)
      ''termination_reason'' y) = Some (get_final_completeness_score (snd st))"
  "reported_final_score (partial_results e q cf sto d) = None"
  "reported_final_score (cancelled_before_start d) = Some (PInt 0)"
  by (simp_all add: reported_final_score_def final_results_def partial_results_def
      cancelled_before_start_def map_of_dict_set Let_def split: option.splits)

lemma error_key [simp]:
  "py_in ''error'' (partial_results e q cf sto d)"
  "py_in ''error'' (cancelled_before_start d)"
  "\<not> py_in ''error'' (dict_set (dict_set (final_results env q cf d st) ''cancelled'' x)
      ''termination_reason'' y)"
  by (simp_all add: py_in_def partial_results_def cancelled_before_start_def final_results_def
      map_of_dict_set Let_def)






section \<open>The grader: the quality heuristic\<close>

lemma example_text_sources: "has_sources ''Revenue grew 12% in 2024, according to Reuters.''"
  by code_simp

lemma example_text_data: "has_specific_data ''Revenue grew 12% in 2024, according to Reuters.''"
  by code_simp

lemma example_text_timeframe: "\<not> has_timeframe ''Revenue grew 12% in 2024, according to Reuters.''"
  by code_simp

lemma example_text_length: "\<not> appropriate_length ''Revenue grew 12% in 2024, according to Reuters.''"
  by code_simp

lemma example_text_disclaimer: "no_disclaimers_only ''Revenue grew 12% in 2024, according to Reuters.''"
  by code_simp

text \<open>
  C7. For every text of a web search answer the quality score is the arithmetic mean of the
  five indicators (each counted as 0 or 1), the answer meets the financial standards exactly
  when it has specific data, has an appropriate length, is not a mere disclaimer and the
  score is at least 0.6, and the length is appropriate exactly when it lies strictly between
  100 and 2000. The score is one of 0, 1/5, ..., 1; the division by 5 and the literal 0.6 are
  both rounded to the nearest float, so the comparison of floats agrees with the one of
  rationals.
\<close>

theorem quality_score_is_mean:
  "py_get (validate_financial_search_quality t q ts) ''quality_score''
     = PFloat ((of_bool (has_sources t) + of_bool (has_specific_data t) + of_bool (has_timeframe t)
               + of_bool (appropriate_length t) + of_bool (no_disclaimers_only t)) / 5)
   \<and> py_get (validate_financial_search_quality t q ts) ''meets_financial_standards''
     = PBool (has_specific_data t \<and> appropriate_length t \<and> no_disclaimers_only t
              \<and> (of_bool (has_sources t) + of_bool (has_specific_data t) + of_bool (has_timeframe t)
                  + of_bool (appropriate_length t) + of_bool (no_disclaimers_only t)) / 5 \<ge> (6 / 10 :: rat))
   \<and> appropriate_length t = (100 < length t \<and> length t < 2000)"
  by (auto simp add: validate_financial_search_quality_def quality_indicators_def quality_score_def
      meets_standards_def indicator_def py_get_def py_get_default_def Let_def appropriate_length_def)

theorem quality_score_is_mean_witness:
  "py_get (validate_financial_search_quality ''Revenue grew 12% in 2024, according to Reuters.''
             ''What is the revenue growth?'' ''2025-01-01T10:00:00'') ''quality_score''
     = PFloat (3 / 5)
   \<and> py_get (validate_financial_search_quality ''Revenue grew 12% in 2024, according to Reuters.''
             ''What is the revenue growth?'' ''2025-01-01T10:00:00'') ''meets_financial_standards''
     = PBool False"
  using quality_score_is_mean [of "''Revenue grew 12% in 2024, according to Reuters.''"
      "''What is the revenue growth?''" "''2025-01-01T10:00:00''"] example_text_sources example_text_data
    example_text_timeframe example_text_length example_text_disclaimer
  by simp


section \<open>The grader: stage 1 never raises\<close>

lemma example_gemini_simps:
  "is_configured (example_gemini graded parsed found) = True"
  "validation_enabled (example_gemini graded parsed found) = True"
  "generate_validation (example_gemini graded parsed found) q c = graded"
  "generate_search (example_gemini graded parsed found) q = found"
  "json_loads (example_gemini graded parsed found) s = parsed"
  "gemini_now (example_gemini graded parsed found) n = ''2025-01-01T10:00:00''"
  by (simp_all add: example_gemini_def)

lemma validation_dict_fields:
  "py_get validation_parse_failure ''validation_passed'' = PBool False"
  "py_get validation_parse_failure ''confidence_score'' = PFloat 0"
  "py_get (validation_error e) ''validation_passed'' = PBool True"
  "py_get (validation_error e) ''confidence_score'' = PFloat (1 / 2)"
  "py_get validation_unavailable ''validation_passed'' = PBool True"
  "py_get validation_unavailable ''confidence_score'' = PFloat (1 / 2)"
  by (simp_all add: validation_parse_failure_def validation_error_def validation_unavailable_def
      py_get_def py_get_default_def)

lemma strip_plain: "strip ''not json'' = ''not json''"
  by code_simp

lemma fences_plain: "strip_fences ''not json'' = Inr ''not json''"
  by code_simp

text \<open>
  C2. For every query and list of RAG answers \<open>validate_rag_response\<close> returns a record and
  raises nothing. When the service is configured, the grading call answers and
  \<^verbatim>\<open>json.loads\<close> raises \<^verbatim>\<open>JSONDecodeError\<close> on the answer (after the removal of code
  fences), the record has \<^verbatim>\<open>validation_passed = False\<close> and \<^verbatim>\<open>confidence_score = 0.0\<close>; when
  the grading call itself raises, the record has \<^verbatim>\<open>validation_passed = True\<close> and
  \<^verbatim>\<open>confidence_score = 0.5\<close>.
\<close>

theorem grader_never_raises:
  "(\<exists>d. validate_rag_response env q rag_response = Inr d)
   \<and> (is_configured env \<and> validation_enabled env
      \<and> generate_validation env q (combined_response rag_response) = Inr (Some answer)
      \<and> strip_fences (strip answer) = Inr json_text
      \<and> json_loads env json_text = Inl JSONDecodeError
      \<longrightarrow> (\<exists>d. validate_rag_response env q rag_response = Inr d
               \<and> py_get d ''validation_passed'' = PBool False
               \<and> py_get d ''confidence_score'' = PFloat 0))
   \<and> (is_configured env \<and> validation_enabled env
      \<and> generate_validation env q (combined_response rag_response) = Inl e
      \<longrightarrow> (\<exists>d. validate_rag_response env q rag_response = Inr d
               \<and> py_get d ''validation_passed'' = PBool True
               \<and> py_get d ''confidence_score'' = PFloat (1 / 2)))"
proof (intro conjI impI)
  show "\<exists>d. validate_rag_response env q rag_response = Inr d"
    by (simp add: validate_rag_response_def split: sum.splits)
next
  assume "is_configured env \<and> validation_enabled env
      \<and> generate_validation env q (combined_response rag_response) = Inr (Some answer)
      \<and> strip_fences (strip answer) = Inr json_text
      \<and> json_loads env json_text = Inl JSONDecodeError"
  then have "validate_rag_response env q rag_response = Inr validation_parse_failure"
    by (simp add: validate_rag_response_def validate_body_def parse_validation_def ebind_def)
  then show "\<exists>d. validate_rag_response env q rag_response = Inr d
               \<and> py_get d ''validation_passed'' = PBool False
               \<and> py_get d ''confidence_score'' = PFloat 0"
    by (simp add: validation_dict_fields)
next
  assume "is_configured env \<and> validation_enabled env
      \<and> generate_validation env q (combined_response rag_response) = Inl e"
  then have "validate_rag_response env q rag_response = Inr (validation_error e)"
    by (simp add: validate_rag_response_def validate_body_def)
  then show "\<exists>d. validate_rag_response env q rag_response = Inr d
               \<and> py_get d ''validation_passed'' = PBool True
               \<and> py_get d ''confidence_score'' = PFloat (1 / 2)"
    by (simp add: validation_dict_fields)
qed

theorem grader_never_raises_witness:
  "(\<exists>d. validate_rag_response (example_gemini (Inr (Some ''not json'')) (Inl JSONDecodeError) (Inr None))
            ''What is the revenue?'' [''Apple is a tech company.''] = Inr d
        \<and> py_get d ''validation_passed'' = PBool False
        \<and> py_get d ''confidence_score'' = PFloat 0)
   \<and> (\<exists>d. validate_rag_response (example_gemini (Inl (RuntimeError ''503'')) (Inl JSONDecodeError) (Inr None))
            ''What is the revenue?'' [''Apple is a tech company.''] = Inr d
        \<and> py_get d ''validation_passed'' = PBool True
        \<and> py_get d ''confidence_score'' = PFloat (1 / 2))"
proof -
  let ?e1 = "example_gemini (Inr (Some ''not json'')) (Inl JSONDecodeError) (Inr None)"
  let ?e2 = "example_gemini (Inl (RuntimeError ''503'')) (Inl JSONDecodeError) (Inr None)"
  have h1: "is_configured ?e1 \<and> validation_enabled ?e1
      \<and> generate_validation ?e1 ''What is the revenue?'' (combined_response [''Apple is a tech company.''])
          = Inr (Some ''not json'')
      \<and> strip_fences (strip ''not json'') = Inr ''not json''
      \<and> json_loads ?e1 ''not json'' = Inl JSONDecodeError"
    by (simp add: example_gemini_simps strip_plain fences_plain)
  have h2: "is_configured ?e2 \<and> validation_enabled ?e2
      \<and> generate_validation ?e2 ''What is the revenue?'' (combined_response [''Apple is a tech company.''])
          = Inl (RuntimeError ''503'')"
    by (simp add: example_gemini_simps)
  from grader_never_raises [where env = "?e1" and q = "''What is the revenue?''"
       and rag_response = "[''Apple is a tech company.'']" and answer = "''not json''"
       and json_text = "''not json''"] h1
  have a: "\<exists>d. validate_rag_response ?e1 ''What is the revenue?'' [''Apple is a tech company.''] = Inr d
        \<and> py_get d ''validation_passed'' = PBool False
        \<and> py_get d ''confidence_score'' = PFloat 0"
    by blast
  from grader_never_raises [where env = "?e2" and q = "''What is the revenue?''"
       and rag_response = "[''Apple is a tech company.'']" and e = "RuntimeError ''503''"] h2
  have b: "\<exists>d. validate_rag_response ?e2 ''What is the revenue?'' [''Apple is a tech company.''] = Inr d
        \<and> py_get d ''validation_passed'' = PBool True
        \<and> py_get d ''confidence_score'' = PFloat (1 / 2)"
    by blast
  from a b show ?thesis by blast
qed


section \<open>The grader: the choice of the final answer\<close>

lemma search_forms:
  "(\<exists>t. search_with_gemini env q = search_found env q t)
   \<or> (search_with_gemini env q \<noteq> []
      \<and> py_get (search_with_gemini env q) ''search_available'' = PBool False)"
  by (auto simp: search_with_gemini_def search_found_def search_error_def Let_def py_get_def
      py_get_default_def split: sum.splits option.splits)

lemma search_found_fields:
  "search_found env q t \<noteq> []"
  "py_get (search_found env q t) ''search_available'' = PBool True"
  "py_get (search_found env q t) ''response'' = PStr t"
  "py_get_default (search_found env q t) ''quality_assessment'' (PDict [])
     = PDict (validate_financial_search_quality t q (gemini_now env 0))"
  "py_get (search_found env q t) ''quality_assessment''
     = PDict (validate_financial_search_quality t q (gemini_now env 0))"
  by (simp_all add: search_found_def py_get_def py_get_default_def)

lemma quality_meets_field:
  "py_get_default (validate_financial_search_quality t q ts) ''meets_financial_standards'' (PBool True)
     = PBool (meets_standards (quality_indicators t))"
  "py_get (validate_financial_search_quality t q ts) ''meets_financial_standards''
     = PBool (meets_standards (quality_indicators t))"
  by (simp_all add: validate_financial_search_quality_def py_get_def py_get_default_def Let_def)

lemma validate_returns: "\<exists>d. validate_rag_response env q rag = Inr d"
  by (simp add: validate_rag_response_def split: sum.splits)

lemma pipeline_forms:
  "\<exists>v. validate_and_enhance_rag_response env q rag = Inr (pipeline_result env q rag v None)
     \<or> validate_and_enhance_rag_response env q rag
         = Inr (pipeline_result env q rag v (Some (search_with_gemini env q)))"
proof -
  obtain v where v: "validate_rag_response env q rag = Inr v"
    using validate_returns by blast
  show ?thesis
    by (rule exI[of _ v])
       (simp add: validate_and_enhance_rag_response_def v ebind_def pipeline_result_def Let_def)
qed

lemma pipeline_fields:
  "py_get (pipeline_result env q rag v enh) ''enhanced_response''
     = (case enh of None \<Rightarrow> PNone | Some e \<Rightarrow> PDict e)"
  "py_get_default (pipeline_result env q rag v enh) ''original_rag_response'' (PList [])
     = PList (map PStr rag)"
  "py_get (pipeline_result env q rag v enh) ''final_source''
     = PStr (case enh of
                 None \<Rightarrow> ''rag''
               | Some e \<Rightarrow> (if e \<noteq> [] \<and> truthy (py_get e ''search_available'')
                            then ''gemini_search'' else ''rag''))"
  by (simp_all add: pipeline_result_def py_get_def py_get_default_def)

lemma final_none:
  "get_final_response (pipeline_result env q rag v None) = Inr (PList (map PStr rag))"
  "\<not> search_succeeded (pipeline_result env q rag v None)"
  "py_get (pipeline_result env q rag v None) ''final_source'' = PStr ''rag''"
  by (simp_all add: get_final_response_def search_succeeded_def pipeline_fields Let_def)

lemma final_failed:
  assumes "e \<noteq> []" and "py_get e ''search_available'' = PBool False"
  shows "get_final_response (pipeline_result env q rag v (Some e)) = Inr (PList (map PStr rag))"
    and "\<not> search_succeeded (pipeline_result env q rag v (Some e))"
    and "py_get (pipeline_result env q rag v (Some e)) ''final_source'' = PStr ''rag''"
  using assms
  by (simp_all add: get_final_response_def search_succeeded_def pipeline_fields Let_def as_dict_def
      ebind_def)

lemma final_found:
  "search_succeeded (pipeline_result env q rag v (Some (search_found env q t)))"
  "augmented_text (pipeline_result env q rag v (Some (search_found env q t))) = Some t"
  "meets_financial_standards (pipeline_result env q rag v (Some (search_found env q t)))
     = meets_standards (quality_indicators t)"
  "py_get (pipeline_result env q rag v (Some (search_found env q t))) ''final_source''
     = PStr ''gemini_search''"
  "get_final_response (pipeline_result env q rag v (Some (search_found env q t)))
     = Inr (PList (if t = [] then map PStr rag
                   else if meets_standards (quality_indicators t) then [PStr t]
                   else [PStr (t @ quality_warning)]))"
  by (simp_all add: get_final_response_def search_succeeded_def augmented_text_def
      meets_financial_standards_def pipeline_fields search_found_fields quality_meets_field
      Let_def as_dict_def ebind_def)

lemma strip_examples:
  "strip_fences (strip ''no'') = Inr ''no''"
  "strip ''Revenue grew 12% in 2024, according to Reuters.'' = ''Revenue grew 12% in 2024, according to Reuters.''"
  "strip ''Apple reported revenue of $94.9 billion for the fourth quarter of 2024, up 6% year over year, according to Reuters.'' = ''Apple reported revenue of $94.9 billion for the fourth quarter of 2024, up 6% year over year, according to Reuters.''"
  "strip [] = []"
  by code_simp+

lemma example_long_text_meets:
  "meets_standards (quality_indicators ''Apple reported revenue of $94.9 billion for the fourth quarter of 2024, up 6% year over year, according to Reuters.'')"
  by code_simp

lemma example_short_text_fails:
  "\<not> meets_standards (quality_indicators ''Revenue grew 12% in 2024, according to Reuters.'')"
  by (simp add: meets_standards_def quality_indicators_def indicator_def example_text_length)

lemma example_empty_text_fails:
  "\<not> meets_standards (quality_indicators [])"
  by (simp add: meets_standards_def quality_indicators_def indicator_def appropriate_length_def)

lemma example_pipeline:
  "strip t = t \<Longrightarrow>
   validate_and_enhance_rag_response
     (example_gemini (Inr (Some ''no'')) (Inr (PDict [(''validation_passed'', PBool False)])) (Inr (Some t)))
     q rag
   = Inr (pipeline_result
       (example_gemini (Inr (Some ''no'')) (Inr (PDict [(''validation_passed'', PBool False)])) (Inr (Some t)))
       q rag [(''validation_passed'', PBool False)]
       (Some (search_found
          (example_gemini (Inr (Some ''no'')) (Inr (PDict [(''validation_passed'', PBool False)])) (Inr (Some t)))
          q t)))"
  by (simp add: validate_and_enhance_rag_response_def validate_rag_response_def validate_body_def
      parse_validation_def example_gemini_simps strip_examples ebind_def as_dict_def py_eq_def
      py_get_default_def search_with_gemini_def search_found_def pipeline_result_def Let_def)

text \<open>
  C6 (as amended). The pipeline always returns a result, and for every such result: if the
  web search succeeded with a non-empty text whose quality assessment meets the financial
  standards, \<open>get_final_response\<close> returns exactly that text as the single answer and the
  pipeline reports the source \<^verbatim>\<open>gemini_search\<close>; if the search succeeded with a non-empty
  text that fails the standards, it returns the text with the warning appended; if the search
  succeeded with an empty text, it returns the original RAG answers; and if no search was made
  or the search did not succeed, it returns the original RAG answers and the pipeline reports
  the source \<^verbatim>\<open>rag\<close>. The assessment of a found text is the one of the quality heuristic.
\<close>

theorem final_response_choice:
  "(\<exists>vr. validate_and_enhance_rag_response env q rag = Inr vr)
   \<and> (\<forall>vr. validate_and_enhance_rag_response env q rag = Inr vr \<longrightarrow>
        (search_succeeded vr \<longrightarrow> augmented_text vr \<noteq> None)
      \<and> (search_succeeded vr \<and> augmented_text vr = Some t \<and> t \<noteq> [] \<and> meets_financial_standards vr
           \<longrightarrow> get_final_response vr = Inr (PList [PStr t])
             \<and> py_get vr ''final_source'' = PStr ''gemini_search'')
      \<and> (search_succeeded vr \<and> augmented_text vr = Some t \<and> t \<noteq> [] \<and> \<not> meets_financial_standards vr
           \<longrightarrow> get_final_response vr = Inr (PList [PStr (t @ quality_warning)]))
      \<and> (search_succeeded vr \<and> augmented_text vr = Some []
           \<longrightarrow> get_final_response vr = Inr (PList (map PStr rag)))
      \<and> (\<not> search_succeeded vr
           \<longrightarrow> get_final_response vr = Inr (PList (map PStr rag))
             \<and> py_get vr ''final_source'' = PStr ''rag'')
      \<and> (search_succeeded vr \<and> augmented_text vr = Some t
           \<longrightarrow> meets_financial_standards vr = meets_standards (quality_indicators t)))"
proof -
  obtain v where v: "validate_and_enhance_rag_response env q rag = Inr (pipeline_result env q rag v None)
     \<or> validate_and_enhance_rag_response env q rag
         = Inr (pipeline_result env q rag v (Some (search_with_gemini env q)))"
    using pipeline_forms by blast
  show ?thesis
  proof (cases "validate_and_enhance_rag_response env q rag = Inr (pipeline_result env q rag v None)")
    case True
    then show ?thesis by (simp add: final_none)
  next
    case False
    with v have r: "validate_and_enhance_rag_response env q rag
         = Inr (pipeline_result env q rag v (Some (search_with_gemini env q)))" by simp
    from search_forms[of env q] show ?thesis
    proof
      assume "\<exists>t. search_with_gemini env q = search_found env q t"
      then obtain u where u: "search_with_gemini env q = search_found env q u" by blast
      show ?thesis by (auto simp add: r u final_found)
    next
      assume f: "search_with_gemini env q \<noteq> []
        \<and> py_get (search_with_gemini env q) ''search_available'' = PBool False"
      then show ?thesis by (simp add: r final_failed)
    qed
  qed
qed

theorem final_response_choice_witness:
  "(case validate_and_enhance_rag_response (example_gemini (Inr (Some ''no'')) (Inr (PDict [(''validation_passed'', PBool False)])) (Inr (Some ''Apple reported revenue of $94.9 billion for the fourth quarter of 2024, up 6% year over year, according to Reuters.'')))
        ''What is the revenue growth?'' [''Apple is a tech company.''] of
      Inl e \<Rightarrow> False
    | Inr vr \<Rightarrow> search_succeeded vr \<and> augmented_text vr = Some ''Apple reported revenue of $94.9 billion for the fourth quarter of 2024, up 6% year over year, according to Reuters.'' \<and> meets_financial_standards vr
        \<and> get_final_response vr = Inr (PList [PStr ''Apple reported revenue of $94.9 billion for the fourth quarter of 2024, up 6% year over year, according to Reuters.''])
        \<and> py_get vr ''final_source'' = PStr ''gemini_search'')
   \<and> (case validate_and_enhance_rag_response (example_gemini (Inr (Some ''no'')) (Inr (PDict [(''validation_passed'', PBool False)])) (Inr (Some ''Revenue grew 12% in 2024, according to Reuters.'')))
        ''What is the revenue growth?'' [''Apple is a tech company.''] of
      Inl e \<Rightarrow> False
    | Inr vr \<Rightarrow> search_succeeded vr \<and> augmented_text vr = Some ''Revenue grew 12% in 2024, according to Reuters.'' \<and> \<not> meets_financial_standards vr
        \<and> get_final_response vr = Inr (PList [PStr (''Revenue grew 12% in 2024, according to Reuters.'' @ quality_warning)]))"
proof -
  have p2: "validate_and_enhance_rag_response (example_gemini (Inr (Some ''no'')) (Inr (PDict [(''validation_passed'', PBool False)])) (Inr (Some ''Apple reported revenue of $94.9 billion for the fourth quarter of 2024, up 6% year over year, according to Reuters.'')))
        ''What is the revenue growth?'' [''Apple is a tech company.''] = Inr (pipeline_result (example_gemini (Inr (Some ''no'')) (Inr (PDict [(''validation_passed'', PBool False)])) (Inr (Some ''Apple reported revenue of $94.9 billion for the fourth quarter of 2024, up 6% year over year, according to Reuters.''))) ''What is the revenue growth?'' [''Apple is a tech company.'']
        [(''validation_passed'', PBool False)] (Some (search_found (example_gemini (Inr (Some ''no'')) (Inr (PDict [(''validation_passed'', PBool False)])) (Inr (Some ''Apple reported revenue of $94.9 billion for the fourth quarter of 2024, up 6% year over year, according to Reuters.''))) ''What is the revenue growth?'' ''Apple reported revenue of $94.9 billion for the fourth quarter of 2024, up 6% year over year, according to Reuters.'')))"
    by (rule example_pipeline) (simp add: strip_examples)
  have p1: "validate_and_enhance_rag_response (example_gemini (Inr (Some ''no'')) (Inr (PDict [(''validation_passed'', PBool False)])) (Inr (Some ''Revenue grew 12% in 2024, according to Reuters.'')))
        ''What is the revenue growth?'' [''Apple is a tech company.''] = Inr (pipeline_result (example_gemini (Inr (Some ''no'')) (Inr (PDict [(''validation_passed'', PBool False)])) (Inr (Some ''Revenue grew 12% in 2024, according to Reuters.''))) ''What is the revenue growth?'' [''Apple is a tech company.'']
        [(''validation_passed'', PBool False)] (Some (search_found (example_gemini (Inr (Some ''no'')) (Inr (PDict [(''validation_passed'', PBool False)])) (Inr (Some ''Revenue grew 12% in 2024, according to Reuters.''))) ''What is the revenue growth?'' ''Revenue grew 12% in 2024, according to Reuters.'')))"
    by (rule example_pipeline) (simp add: strip_examples)
  have h2: "search_succeeded (pipeline_result (example_gemini (Inr (Some ''no'')) (Inr (PDict [(''validation_passed'', PBool False)])) (Inr (Some ''Apple reported revenue of $94.9 billion for the fourth quarter of 2024, up 6% year over year, according to Reuters.''))) ''What is the revenue growth?'' [''Apple is a tech company.'']
        [(''validation_passed'', PBool False)] (Some (search_found (example_gemini (Inr (Some ''no'')) (Inr (PDict [(''validation_passed'', PBool False)])) (Inr (Some ''Apple reported revenue of $94.9 billion for the fourth quarter of 2024, up 6% year over year, according to Reuters.''))) ''What is the revenue growth?'' ''Apple reported revenue of $94.9 billion for the fourth quarter of 2024, up 6% year over year, according to Reuters.''))) \<and> augmented_text (pipeline_result (example_gemini (Inr (Some ''no'')) (Inr (PDict [(''validation_passed'', PBool False)])) (Inr (Some ''Apple reported revenue of $94.9 billion for the fourth quarter of 2024, up 6% year over year, according to Reuters.''))) ''What is the revenue growth?'' [''Apple is a tech company.'']
        [(''validation_passed'', PBool False)] (Some (search_found (example_gemini (Inr (Some ''no'')) (Inr (PDict [(''validation_passed'', PBool False)])) (Inr (Some ''Apple reported revenue of $94.9 billion for the fourth quarter of 2024, up 6% year over year, according to Reuters.''))) ''What is the revenue growth?'' ''Apple reported revenue of $94.9 billion for the fourth quarter of 2024, up 6% year over year, according to Reuters.''))) = Some ''Apple reported revenue of $94.9 billion for the fourth quarter of 2024, up 6% year over year, according to Reuters.'' \<and> ''Apple reported revenue of $94.9 billion for the fourth quarter of 2024, up 6% year over year, according to Reuters.'' \<noteq> [] \<and> meets_financial_standards (pipeline_result (example_gemini (Inr (Some ''no'')) (Inr (PDict [(''validation_passed'', PBool False)])) (Inr (Some ''Apple reported revenue of $94.9 billion for the fourth quarter of 2024, up 6% year over year, according to Reuters.''))) ''What is the revenue growth?'' [''Apple is a tech company.'']
        [(''validation_passed'', PBool False)] (Some (search_found (example_gemini (Inr (Some ''no'')) (Inr (PDict [(''validation_passed'', PBool False)])) (Inr (Some ''Apple reported revenue of $94.9 billion for the fourth quarter of 2024, up 6% year over year, according to Reuters.''))) ''What is the revenue growth?'' ''Apple reported revenue of $94.9 billion for the fourth quarter of 2024, up 6% year over year, according to Reuters.'')))"
    by (simp add: final_found example_long_text_meets)
  have h1: "search_succeeded (pipeline_result (example_gemini (Inr (Some ''no'')) (Inr (PDict [(''validation_passed'', PBool False)])) (Inr (Some ''Revenue grew 12% in 2024, according to Reuters.''))) ''What is the revenue growth?'' [''Apple is a tech company.'']
        [(''validation_passed'', PBool False)] (Some (search_found (example_gemini (Inr (Some ''no'')) (Inr (PDict [(''validation_passed'', PBool False)])) (Inr (Some ''Revenue grew 12% in 2024, according to Reuters.''))) ''What is the revenue growth?'' ''Revenue grew 12% in 2024, according to Reuters.''))) \<and> augmented_text (pipeline_result (example_gemini (Inr (Some ''no'')) (Inr (PDict [(''validation_passed'', PBool False)])) (Inr (Some ''Revenue grew 12% in 2024, according to Reuters.''))) ''What is the revenue growth?'' [''Apple is a tech company.'']
        [(''validation_passed'', PBool False)] (Some (search_found (example_gemini (Inr (Some ''no'')) (Inr (PDict [(''validation_passed'', PBool False)])) (Inr (Some ''Revenue grew 12% in 2024, according to Reuters.''))) ''What is the revenue growth?'' ''Revenue grew 12% in 2024, according to Reuters.''))) = Some ''Revenue grew 12% in 2024, according to Reuters.'' \<and> ''Revenue grew 12% in 2024, according to Reuters.'' \<noteq> [] \<and> \<not> meets_financial_standards (pipeline_result (example_gemini (Inr (Some ''no'')) (Inr (PDict [(''validation_passed'', PBool False)])) (Inr (Some ''Revenue grew 12% in 2024, according to Reuters.''))) ''What is the revenue growth?'' [''Apple is a tech company.'']
        [(''validation_passed'', PBool False)] (Some (search_found (example_gemini (Inr (Some ''no'')) (Inr (PDict [(''validation_passed'', PBool False)])) (Inr (Some ''Revenue grew 12% in 2024, according to Reuters.''))) ''What is the revenue growth?'' ''Revenue grew 12% in 2024, according to Reuters.'')))"
    by (simp add: final_found example_short_text_fails)
  from final_response_choice [where env = "example_gemini (Inr (Some ''no'')) (Inr (PDict [(''validation_passed'', PBool False)])) (Inr (Some ''Apple reported revenue of $94.9 billion for the fourth quarter of 2024, up 6% year over year, according to Reuters.''))" and q = "''What is the revenue growth?''" and rag = "[''Apple is a tech company.'']" and t = "''Apple reported revenue of $94.9 billion for the fourth quarter of 2024, up 6% year over year, according to Reuters.''"] p2 h2
  have a: "get_final_response (pipeline_result (example_gemini (Inr (Some ''no'')) (Inr (PDict [(''validation_passed'', PBool False)])) (Inr (Some ''Apple reported revenue of $94.9 billion for the fourth quarter of 2024, up 6% year over year, according to Reuters.''))) ''What is the revenue growth?'' [''Apple is a tech company.'']
        [(''validation_passed'', PBool False)] (Some (search_found (example_gemini (Inr (Some ''no'')) (Inr (PDict [(''validation_passed'', PBool False)])) (Inr (Some ''Apple reported revenue of $94.9 billion for the fourth quarter of 2024, up 6% year over year, according to Reuters.''))) ''What is the revenue growth?'' ''Apple reported revenue of $94.9 billion for the fourth quarter of 2024, up 6% year over year, according to Reuters.''))) = Inr (PList [PStr ''Apple reported revenue of $94.9 billion for the fourth quarter of 2024, up 6% year over year, according to Reuters.''])
        \<and> py_get (pipeline_result (example_gemini (Inr (Some ''no'')) (Inr (PDict [(''validation_passed'', PBool False)])) (Inr (Some ''Apple reported revenue of $94.9 billion for the fourth quarter of 2024, up 6% year over year, according to Reuters.''))) ''What is the revenue growth?'' [''Apple is a tech company.'']
        [(''validation_passed'', PBool False)] (Some (search_found (example_gemini (Inr (Some ''no'')) (Inr (PDict [(''validation_passed'', PBool False)])) (Inr (Some ''Apple reported revenue of $94.9 billion for the fourth quarter of 2024, up 6% year over year, according to Reuters.''))) ''What is the revenue growth?'' ''Apple reported revenue of $94.9 billion for the fourth quarter of 2024, up 6% year over year, according to Reuters.''))) ''final_source'' = PStr ''gemini_search''"
    by blast
  from final_response_choice [where env = "example_gemini (Inr (Some ''no'')) (Inr (PDict [(''validation_passed'', PBool False)])) (Inr (Some ''Revenue grew 12% in 2024, according to Reuters.''))" and q = "''What is the revenue growth?''" and rag = "[''Apple is a tech company.'']" and t = "''Revenue grew 12% in 2024, according to Reuters.''"] p1 h1
  have b: "get_final_response (pipeline_result (example_gemini (Inr (Some ''no'')) (Inr (PDict [(''validation_passed'', PBool False)])) (Inr (Some ''Revenue grew 12% in 2024, according to Reuters.''))) ''What is the revenue growth?'' [''Apple is a tech company.'']
        [(''validation_passed'', PBool False)] (Some (search_found (example_gemini (Inr (Some ''no'')) (Inr (PDict [(''validation_passed'', PBool False)])) (Inr (Some ''Revenue grew 12% in 2024, according to Reuters.''))) ''What is the revenue growth?'' ''Revenue grew 12% in 2024, according to Reuters.''))) = Inr (PList [PStr (''Revenue grew 12% in 2024, according to Reuters.'' @ quality_warning)])"
    by blast
  from a b h1 h2 show ?thesis by (simp add: p1 p2)
qed

theorem empty_augmentation_counterexample:
  "case validate_and_enhance_rag_response (example_gemini (Inr (Some ''no'')) (Inr (PDict [(''validation_passed'', PBool False)])) (Inr (Some [])))
        ''What is the revenue growth?'' [''Apple is a tech company.''] of
      Inl e \<Rightarrow> False
    | Inr vr \<Rightarrow> search_succeeded vr \<and> augmented_text vr = Some [] \<and> \<not> meets_financial_standards vr
        \<and> get_final_response vr = Inr (PList [PStr ''Apple is a tech company.''])
        \<and> get_final_response vr \<noteq> Inr (PList [PStr ([] @ quality_warning)])
        \<and> py_get vr ''final_source'' = PStr ''gemini_search''"
proof -
  have p: "validate_and_enhance_rag_response (example_gemini (Inr (Some ''no'')) (Inr (PDict [(''validation_passed'', PBool False)])) (Inr (Some [])))
        ''What is the revenue growth?'' [''Apple is a tech company.''] = Inr (pipeline_result (example_gemini (Inr (Some ''no'')) (Inr (PDict [(''validation_passed'', PBool False)])) (Inr (Some []))) ''What is the revenue growth?'' [''Apple is a tech company.'']
        [(''validation_passed'', PBool False)] (Some (search_found (example_gemini (Inr (Some ''no'')) (Inr (PDict [(''validation_passed'', PBool False)])) (Inr (Some []))) ''What is the revenue growth?'' [])))"
    by (rule example_pipeline) (simp add: strip_examples)
  show ?thesis
    by (simp add: p final_found example_empty_text_fails quality_warning_def)
qed


section \<open>The RAG gateway: the search cache after a prune and after a reset\<close>

text \<open>
  C5. A configured service whose search cache holds an answer for the query
  \<^verbatim>\<open>Apple revenue\<close> in mode \<^verbatim>\<open>graph\<close>: after a successful \<open>prune_data\<close> the entry is still
  in the cache and the next search for the same query and mode returns it, whatever the
  store would answer now. After a successful \<open>complete_reset\<close> the cache is empty.
\<close>

theorem prune_serves_stale_cache:
  "fst (prune_data (Inr ())
         \<lparr>cognee_configured = True,
          search_cache = [create_cache_key lib ''Apple revenue'' ''graph'' \<mapsto> [''stale answer'']],
          document_registry = []\<rparr>) = True
   \<and> search_cache (snd (prune_data (Inr ())
         \<lparr>cognee_configured = True,
          search_cache = [create_cache_key lib ''Apple revenue'' ''graph'' \<mapsto> [''stale answer'']],
          document_registry = []\<rparr>))
       (create_cache_key lib ''Apple revenue'' ''graph'') = Some [''stale answer'']
   \<and> fst (search_context lib backend (snd (prune_data (Inr ())
         \<lparr>cognee_configured = True,
          search_cache = [create_cache_key lib ''Apple revenue'' ''graph'' \<mapsto> [''stale answer'']],
          document_registry = []\<rparr>)) ''Apple revenue'' ''graph'') = [''stale answer'']
   \<and> search_cache (snd (complete_reset (Inr ())
         \<lparr>cognee_configured = True,
          search_cache = [create_cache_key lib ''Apple revenue'' ''graph'' \<mapsto> [''stale answer'']],
          document_registry = []\<rparr>)) = Map.empty"
  by (simp add: prune_data_def prune_data_async_def complete_reset_def search_context_def Let_def)


section \<open>The registry: adding the same document twice\<close>









end
